theory Spec2Isabelle
  imports Complex_Main
begin

section \<open>Python values and exceptions\<close>

text \<open>
  The values that flow through the modelled code: \<open>None\<close>, strings, integers and
  floats. Python floats are modelled by real numbers: rounding is outside the model,
  and the overflow of the float range is modelled where the code raises on it. A string
  is a list of characters, one per code point.
\<close>

datatype pyval = PNone | PStr string | PInt int | PFloat real

text \<open>Python truthiness, as used by \<open>if x:\<close> and \<open>not x\<close>.\<close>

fun truthy :: "pyval \<Rightarrow> bool" where
  "truthy PNone = False"
| "truthy (PStr s) = (s \<noteq> [])"
| "truthy (PInt i) = (i \<noteq> 0)"
| "truthy (PFloat x) = (x \<noteq> 0)"

text \<open>
  The exception classes of \<open>utils/error_handler.py\<close>, and the built-in exceptions
  that the modelled code can raise.
\<close>

datatype exn_class =
    PubMedError | RateLimitError | InvalidQueryError | ArticleNotFoundError
  | ServiceUnavailableError | InvalidIDError | BatchSizeError | NetworkError
  | TypeError | ZeroDivisionError | ValueError | OverflowError

record exn =
  cls :: exn_class
  attrs :: "(string \<times> pyval) list"

text \<open>
  The parameters of each class's \<open>__init__\<close> after \<open>self\<close>, in order, each with its
  default (\<open>None\<close> for a parameter without one).
\<close>

fun init_params :: "exn_class \<Rightarrow> (string \<times> pyval option) list" where
  "init_params PubMedError = [(''message'', None), (''details'', Some PNone)]"
| "init_params RateLimitError =
     [(''message'', Some (PStr ''Rate limit exceeded'')), (''retry_after'', Some PNone)]"
| "init_params InvalidQueryError =
     [(''message'', Some (PStr ''Invalid query syntax'')), (''query'', Some PNone),
      (''suggestion'', Some PNone)]"
| "init_params ArticleNotFoundError =
     [(''message'', Some (PStr ''Article not found'')), (''identifier'', Some PNone),
      (''id_type'', Some PNone)]"
| "init_params ServiceUnavailableError =
     [(''message'', Some (PStr ''NCBI service temporarily unavailable'')),
      (''retry_after'', Some (PFloat 60))]"
| "init_params InvalidIDError =
     [(''message'', Some (PStr ''Invalid identifier format'')), (''identifier'', Some PNone),
      (''expected_format'', Some PNone)]"
| "init_params BatchSizeError =
     [(''message'', Some (PStr ''Batch size too large'')), (''requested_size'', Some PNone),
      (''max_size'', Some PNone)]"
| "init_params NetworkError =
     [(''message'', Some (PStr ''Network error occurred'')), (''original_error'', Some PNone)]"
| "init_params c = [(''message'', Some (PStr []))]"

text \<open>
  Binding the arguments of a call to the parameters, as Python does: positional
  arguments fill the parameters from the left, keyword arguments by name. Too many
  positional arguments, a keyword that names no parameter, a parameter given twice and
  a parameter left without a value each raise \<open>TypeError\<close>.
\<close>

definition type_error :: "string \<Rightarrow> exn" where
  "type_error msg = \<lparr>cls = TypeError, attrs = [(''message'', PStr msg)]\<rparr>"

definition bind_args ::
  "(string \<times> pyval option) list \<Rightarrow> pyval list \<Rightarrow> (string \<times> pyval) list
     \<Rightarrow> exn + (string \<times> pyval) list" where
  "bind_args params args kwargs =
     (let names = map fst params;
          positional = zip names args
      in if length params < length args
           then Inl (type_error ''too many positional arguments'')
         else (case filter (\<lambda>k. k \<notin> set names) (map fst kwargs) of
           k # _ \<Rightarrow> Inl (type_error (''got an unexpected keyword argument '' @ k))
         | [] \<Rightarrow>
         (case filter (\<lambda>k. k \<in> set (map fst positional)) (map fst kwargs) of
           k # _ \<Rightarrow> Inl (type_error (''got multiple values for argument '' @ k))
         | [] \<Rightarrow>
         (case filter (\<lambda>(p, d). map_of (positional @ kwargs) p = None \<and> d = None) params of
           (p, _) # _ \<Rightarrow> Inl (type_error (''missing required argument '' @ p))
         | [] \<Rightarrow>
             Inr (map (\<lambda>(p, d). (p, (case map_of (positional @ kwargs) p of
                                       Some v \<Rightarrow> v
                                     | None \<Rightarrow> (case d of Some v \<Rightarrow> v | None \<Rightarrow> PNone))))
                      params)))))"

text \<open>
  Instantiating an exception class. \<open>PubMedError.__init__\<close> stores \<open>message\<close> and
  \<open>details\<close>; every subclass calls \<open>super().__init__(message)\<close>, which stores the
  message and \<open>details = None\<close>, and then stores its own parameters.
\<close>

definition new_exn :: "exn_class \<Rightarrow> pyval list \<Rightarrow> (string \<times> pyval) list \<Rightarrow> exn + exn" where
  "new_exn c args kwargs =
     (case bind_args (init_params c) args kwargs of
        Inl e \<Rightarrow> Inl e
      | Inr vs \<Rightarrow>
          Inr \<lparr>cls = c,
               attrs = (if c = PubMedError then vs
                        else (case vs of
                                [] \<Rightarrow> []
                              | m # rest \<Rightarrow> m # (''details'', PNone) # rest))\<rparr>)"

text \<open>\<open>raise C(...)\<close>: the exception that propagates is the instance, or the
  \<open>TypeError\<close> of the failed instantiation.\<close>

definition raise_new :: "exn_class \<Rightarrow> pyval list \<Rightarrow> (string \<times> pyval) list \<Rightarrow> exn" where
  "raise_new c args kwargs = (case new_exn c args kwargs of Inl e \<Rightarrow> e | Inr e \<Rightarrow> e)"

text \<open>\<open>str(n)\<close> for an integer \<open>n\<close>.\<close>

fun str_nat :: "nat \<Rightarrow> string" where
  "str_nat n =
     (if n < 10 then [''0123456789'' ! n]
      else str_nat (n div 10) @ [''0123456789'' ! (n mod 10)])"

declare str_nat.simps [simp del]

definition str_int :: "int \<Rightarrow> string" where
  "str_int i = (if i < 0 then CHR ''-'' # str_nat (nat (- i)) else str_nat (nat i))"

section \<open>Token-bucket limiter (\<open>utils/rate_limiter.py\<close>)\<close>

record RateLimiter =
  max_requests :: int
  window :: real
  tokens :: real
  last_update :: real

text \<open>\<open>RateLimiter.__init__\<close>; the argument \<open>now\<close> is the reading of
  \<open>time.monotonic()\<close>.\<close>

definition RateLimiter_init :: "int \<Rightarrow> real \<Rightarrow> real \<Rightarrow> RateLimiter" where
  "RateLimiter_init mr w now =
     \<lparr>max_requests = mr, window = w, tokens = real_of_int mr, last_update = now\<rparr>"

definition zero_division :: exn where
  "zero_division = \<lparr>cls = ZeroDivisionError, attrs = [(''message'', PStr ''division by zero'')]\<rparr>"

text \<open>
  \<open>RateLimiter.acquire\<close>. The reading of \<open>time.monotonic()\<close> is the argument \<open>now\<close>;
  the result is the exception raised or the duration passed to \<open>asyncio.sleep\<close>
  (\<open>None\<close> when the call does not sleep), together with the limiter afterwards. The two
  divisions raise \<open>ZeroDivisionError\<close> on a zero divisor; the first happens before any
  assignment, the second after the refill has been stored.
\<close>

definition acquire :: "real \<Rightarrow> RateLimiter \<Rightarrow> (exn + real option) \<times> RateLimiter" where
  "acquire now rl =
     (let elapsed = now - last_update rl
      in if window rl = 0 then (Inl zero_division, rl)
         else
           let rl1 = rl\<lparr>tokens := min (real_of_int (max_requests rl))
                                     (tokens rl + elapsed * (real_of_int (max_requests rl) / window rl)),
                        last_update := now\<rparr>
           in if tokens rl1 < 1 then
                (if max_requests rl1 = 0 then (Inl zero_division, rl1)
                 else
                   let wait_time = (1 - tokens rl1) * (window rl1 / real_of_int (max_requests rl1))
                   in (Inr (Some wait_time), rl1\<lparr>tokens := 0\<rparr>))
              else (Inr None, rl1\<lparr>tokens := tokens rl1 - 1\<rparr>))"

definition update_limit :: "int \<Rightarrow> RateLimiter \<Rightarrow> RateLimiter" where
  "update_limit new_limit rl = rl\<lparr>max_requests := new_limit\<rparr>"

text \<open>The property \<open>available_tokens\<close>, read at time \<open>now\<close>; it changes nothing.\<close>

definition available_tokens :: "real \<Rightarrow> RateLimiter \<Rightarrow> exn + real" where
  "available_tokens now rl =
     (let elapsed = now - last_update rl
      in if window rl = 0 then Inl zero_division
         else Inr (min (real_of_int (max_requests rl))
                       (tokens rl + elapsed * (real_of_int (max_requests rl) / window rl))))"

text \<open>
  A limiter in use: created at some time and then acquired from at the given times, in
  order. A call that raises leaves the limiter as the exception found it.
\<close>

fun acquire_all :: "real list \<Rightarrow> RateLimiter \<Rightarrow> RateLimiter" where
  "acquire_all [] rl = rl"
| "acquire_all (t # ts) rl = acquire_all ts (snd (acquire t rl))"

section \<open>Retry policy (\<open>utils/rate_limiter.py\<close>)\<close>

record RetryHandler =
  max_retries :: int
  base_delay :: real
  backoff_factor :: real
  max_delay :: real

text \<open>
  Python floats are modelled by real numbers, but their range is finite: a result whose
  magnitude reaches \<open>2^1024 - 2^970\<close>, where rounding to the nearest double leaves the
  finite doubles, is an overflow. The operations that raise \<open>OverflowError\<close> on one are
  \<open>**\<close> on floats and the conversion of an integer to a float; the float product only
  yields infinity.
\<close>

definition float_overflows :: "real \<Rightarrow> bool" where
  "float_overflows x = (2 ^ 1024 - 2 ^ 970 \<le> \<bar>x\<bar>)"

definition overflow_error :: exn where
  "overflow_error =
     \<lparr>cls = OverflowError, attrs = [(''message'', PStr ''Numerical result out of range'')]\<rparr>"

text \<open>
  \<open>RetryHandler.get_delay\<close>. Python's \<open>x ** n\<close> for a float \<open>x\<close> and an integer \<open>n\<close>
  first converts \<open>n\<close> to a float, which raises \<open>OverflowError\<close> when \<open>n\<close> is out of the
  float range; it raises \<open>ZeroDivisionError\<close> for \<open>0.0\<close> to a negative power; otherwise it
  is the \<open>n\<close>-th power, the reciprocal of a power when \<open>n\<close> is negative, and raises
  \<open>OverflowError\<close> when that power is out of the float range.
\<close>

definition get_delay :: "RetryHandler \<Rightarrow> int \<Rightarrow> exn + real" where
  "get_delay rh attempt =
     (if float_overflows (real_of_int attempt) then Inl overflow_error
      else if attempt < 0 \<and> backoff_factor rh = 0 then Inl zero_division
      else if float_overflows (power_int (backoff_factor rh) attempt) then Inl overflow_error
      else
        let delay = base_delay rh * power_int (backoff_factor rh) attempt
        in Inr (min delay (max_delay rh)))"

text \<open>\<open>RetryHandler.wait\<close>: the duration it sleeps for.\<close>

definition wait :: "RetryHandler \<Rightarrow> int \<Rightarrow> exn + real" where
  "wait rh attempt = get_delay rh attempt"

section \<open>Request core (\<open>clients/base.py\<close>)\<close>

text \<open>The two settings of \<open>config.py\<close> that the request core reads.\<close>

definition MAX_RETRIES :: int where
  "MAX_RETRIES = 3"

definition RETRY_BACKOFF_FACTOR :: real where
  "RETRY_BACKOFF_FACTOR = 3 / 2"

text \<open>
  What the request core reads of an HTTP response: the status code, the value of the
  \<open>Retry-After\<close> header when the response has one, and the body text.
\<close>

record response =
  status_code :: int
  retry_after_header :: "string option"
  resp_text :: string

text \<open>
  The three calls the core makes on the HTTP client, each with the URL, the query
  parameters and (but for \<open>get\<close>) the form data.
\<close>

type_synonym fields = "(string \<times> string) list option"

datatype http_call =
    ClientGet string fields
  | ClientPost string fields fields
  | ClientRequest string string fields fields

text \<open>
  The outcome of one HTTP call: a response, \<open>httpx.TimeoutException\<close>, another
  \<open>httpx.RequestError\<close>, or an exception of some other class. The two \<open>httpx\<close>
  exceptions carry their \<open>str()\<close>.
\<close>

datatype outcome =
    Response response
  | TimeoutException string
  | RequestError string
  | OtherException exn

text \<open>
  The environment of a client: the successive readings of \<open>time.monotonic()\<close>, the
  transport (the outcome of the \<open>n\<close>-th HTTP call, given the call), and Python's
  \<open>float()\<close> on strings (\<open>None\<close> where it raises \<open>ValueError\<close>).
\<close>

record env =
  monotonic :: "nat \<Rightarrow> real"
  transport :: "nat \<Rightarrow> http_call \<Rightarrow> outcome"
  float_of_str :: "string \<Rightarrow> real option"

text \<open>
  The effects of a client on its environment so far: how many times the clock was read
  (once per \<open>acquire\<close>), the durations slept, and the HTTP calls issued, each in order.
\<close>

record io =
  clock_reads :: nat
  sleeps :: "real list"
  sent :: "http_call list"

definition io_init :: io where
  "io_init = \<lparr>clock_reads = 0, sleeps = [], sent = []\<rparr>"

record BaseClient =
  base_url :: string
  api_key :: "string option"
  timeout :: int
  rate_limiter :: RateLimiter
  retry_handler :: RetryHandler

text \<open>\<open>str.rstrip("/")\<close> and \<open>str.upper()\<close> (on ASCII letters).\<close>

definition rstrip_slash :: "string \<Rightarrow> string" where
  "rstrip_slash s = rev (dropWhile (\<lambda>c. c = CHR ''/'') (rev s))"

definition upper_char :: "char \<Rightarrow> char" where
  "upper_char c =
     (case map_of (zip ''abcdefghijklmnopqrstuvwxyz'' ''ABCDEFGHIJKLMNOPQRSTUVWXYZ'') c of
        Some u \<Rightarrow> u
      | None \<Rightarrow> c)"

definition upper :: "string \<Rightarrow> string" where
  "upper s = map upper_char s"

text \<open>
  \<open>BaseClient.__init__\<close>. \<open>config_key\<close> is \<open>Config.NCBI_API_KEY\<close>, and \<open>now\<close> the clock
  reading taken by the limiter's constructor.
\<close>

definition BaseClient_init ::
  "string option \<Rightarrow> real \<Rightarrow> string \<Rightarrow> string option \<Rightarrow> int \<Rightarrow> BaseClient" where
  "BaseClient_init config_key now url key tmo =
     (let k = (case key of Some (c # cs) \<Rightarrow> key | _ \<Rightarrow> config_key);
          rate_limit = (case k of Some (c # cs) \<Rightarrow> 10 | _ \<Rightarrow> 3)
      in \<lparr>base_url = rstrip_slash url, api_key = k, timeout = tmo,
           rate_limiter = RateLimiter_init rate_limit 1 now,
           retry_handler = \<lparr>max_retries = MAX_RETRIES, base_delay = 1,
                             backoff_factor = RETRY_BACKOFF_FACTOR, max_delay = 60\<rparr>\<rparr>)"

definition value_error :: exn where
  "value_error =
     \<lparr>cls = ValueError, attrs = [(''message'', PStr ''could not convert string to float'')]\<rparr>"

definition bind_exn :: "exn + 'a \<Rightarrow> ('a \<Rightarrow> exn + 'b) \<Rightarrow> exn + 'b" where
  "bind_exn x f = (case x of Inl e \<Rightarrow> Inl e | Inr v \<Rightarrow> f v)"

text \<open>
  \<open>map_http_status_to_error\<close>. The dictionary display builds all eight instances, in
  order, before the lookup, and the default of \<open>get\<close> is built before the lookup too; an
  instantiation that raises ends the call. \<open>Inl\<close> is an exception raised by the call,
  \<open>Inr\<close> the error object it returns.
\<close>

definition map_http_status_to_error :: "int \<Rightarrow> pyval \<Rightarrow> exn + exn" where
  "map_http_status_to_error status response_text =
     bind_exn (new_exn InvalidQueryError []
        [(''message'', PStr ''Bad request - check query syntax''),
         (''details'', response_text)]) (\<lambda>e400.
     bind_exn (new_exn PubMedError []
        [(''message'', PStr ''Authentication error - check API key''),
         (''details'', response_text)]) (\<lambda>e401.
     bind_exn (new_exn ArticleNotFoundError []
        [(''message'', PStr ''Resource not found''),
         (''details'', response_text)]) (\<lambda>e404.
     bind_exn (new_exn RateLimitError []
        [(''message'', PStr ''Rate limit exceeded - retry with backoff''),
         (''retry_after'', PFloat 60)]) (\<lambda>e429.
     bind_exn (new_exn ServiceUnavailableError []
        [(''message'', PStr ''NCBI internal server error''),
         (''retry_after'', PFloat 60)]) (\<lambda>e500.
     bind_exn (new_exn ServiceUnavailableError []
        [(''message'', PStr ''NCBI gateway error''),
         (''retry_after'', PFloat 30)]) (\<lambda>e502.
     bind_exn (new_exn ServiceUnavailableError []
        [(''message'', PStr ''NCBI service temporarily unavailable''),
         (''retry_after'', PFloat 60)]) (\<lambda>e503.
     bind_exn (new_exn ServiceUnavailableError []
        [(''message'', PStr ''NCBI gateway timeout''),
         (''retry_after'', PFloat 30)]) (\<lambda>e504.
     let error_mapping = [(400, e400), (401, e401), (404, e404), (429, e429),
                          (500, e500), (502, e502), (503, e503), (504, e504)]
     in bind_exn (new_exn PubMedError []
          [(''message'', PStr (''HTTP error '' @ str_int status)),
           (''details'', response_text)]) (\<lambda>dflt.
        Inr (case map_of error_mapping status of Some e \<Rightarrow> e | None \<Rightarrow> dflt))))))))))"

text \<open>
  The pattern \<open>await self.retry_handler.wait(attempt); continue\<close>: the loop goes on
  (\<open>None\<close>) after the sleep, unless \<open>wait\<close> raises.
\<close>

definition wait_and_continue ::
  "RetryHandler \<Rightarrow> int \<Rightarrow> RateLimiter \<times> io \<Rightarrow> (exn + response) option \<times> (RateLimiter \<times> io)" where
  "wait_and_continue rh attempt s =
     (case wait rh attempt of
        Inl e \<Rightarrow> (Some (Inl e), s)
      | Inr d \<Rightarrow> (None, (fst s, (snd s)\<lparr>sleeps := sleeps (snd s) @ [d]\<rparr>)))"

text \<open>
  One pass through the body of the loop of \<open>_request\<close>, for the given attempt number.
  The result is \<open>None\<close> when the pass ends in \<open>continue\<close>, the returned response or the
  raised exception otherwise. An exception of \<open>acquire\<close> or of the classification is
  none of the two classes the \<open>except\<close> clauses catch, so it propagates.
\<close>

definition attempt_once ::
  "env \<Rightarrow> RetryHandler \<Rightarrow> http_call \<Rightarrow> bool \<Rightarrow> int \<Rightarrow> RateLimiter \<times> io
     \<Rightarrow> (exn + response) option \<times> (RateLimiter \<times> io)" where
  "attempt_once ev rh call retry_on_rate_limit attempt s =
     (let w0 = snd s;
          acq = acquire (monotonic ev (clock_reads w0)) (fst s);
          rl = snd acq;
          w1 = w0\<lparr>clock_reads := Suc (clock_reads w0)\<rparr>
      in case fst acq of
           Inl e \<Rightarrow> (Some (Inl e), (rl, w1))
         | Inr slept \<Rightarrow>
             let w2 = w1\<lparr>sleeps := sleeps w1 @ (case slept of None \<Rightarrow> [] | Some d \<Rightarrow> [d])\<rparr>;
                 w3 = w2\<lparr>sent := sent w2 @ [call]\<rparr>
             in (case transport ev (length (sent w2)) call of
                  Response r \<Rightarrow>
                    if status_code r = 429 then
                      (if retry_on_rate_limit \<and> attempt < max_retries rh
                         then wait_and_continue rh attempt (rl, w3)
                       else
                         (case (case retry_after_header r of
                                  None \<Rightarrow> Some 60
                                | Some h \<Rightarrow> float_of_str ev h) of
                            None \<Rightarrow>
                              (Some (Inl value_error), (rl, w3))
                          | Some ra \<Rightarrow>
                              (Some (Inl (raise_new RateLimitError []
                                 [(''message'', PStr ''Rate limit exceeded after retries''),
                                  (''retry_after'', PFloat ra)])),
                               (rl, w3))))
                    else if 500 \<le> status_code r then
                      (if attempt < max_retries rh
                         then wait_and_continue rh attempt (rl, w3)
                       else
                         (Some (Inl (raise_new ServiceUnavailableError []
                            [(''message'', PStr (''Server error: '' @ str_int (status_code r))),
                             (''retry_after'', PFloat 60)])),
                          (rl, w3)))
                    else if 400 \<le> status_code r then
                      (Some (Inl (case map_http_status_to_error (status_code r)
                                         (PStr (take 500 (resp_text r))) of
                                    Inl e \<Rightarrow> e
                                  | Inr e \<Rightarrow> e)),
                       (rl, w3))
                    else (Some (Inr r), (rl, w3))
                | TimeoutException e \<Rightarrow>
                    if attempt < max_retries rh
                      then wait_and_continue rh attempt (rl, w3)
                    else
                      (Some (Inl (raise_new NetworkError []
                         [(''message'', PStr ''Request timed out''),
                          (''original_error'', PStr e)])),
                       (rl, w3))
                | RequestError e \<Rightarrow>
                    if attempt < max_retries rh
                      then wait_and_continue rh attempt (rl, w3)
                    else
                      (Some (Inl (raise_new NetworkError []
                         [(''message'', PStr ''Network request failed''),
                          (''original_error'', PStr e)])),
                       (rl, w3))
                | OtherException e \<Rightarrow> (Some (Inl e), (rl, w3))))"

text \<open>
  The loop \<open>for attempt in range(max_retries + 1)\<close> over the attempt numbers still to
  run, with the statement after the loop.
\<close>

fun request_loop ::
  "env \<Rightarrow> RetryHandler \<Rightarrow> http_call \<Rightarrow> bool \<Rightarrow> int list \<Rightarrow> RateLimiter \<times> io
     \<Rightarrow> (exn + response) \<times> (RateLimiter \<times> io)" where
  "request_loop ev rh call retry_on_rate_limit [] s =
     (Inl (raise_new PubMedError [PStr ''Max retries exceeded''] []), s)"
| "request_loop ev rh call retry_on_rate_limit (attempt # rest) s =
     (case attempt_once ev rh call retry_on_rate_limit attempt s of
        (Some res, s') \<Rightarrow> (res, s')
      | (None, s') \<Rightarrow> request_loop ev rh call retry_on_rate_limit rest s')"

text \<open>
  \<open>BaseClient._request\<close>: the response returned or the exception raised, with the
  limiter and the effects afterwards. Creating the pooled HTTP client
  (\<open>_get_client\<close>) has no part in the result and is left out.
\<close>

definition request ::
  "env \<Rightarrow> BaseClient \<Rightarrow> string \<Rightarrow> string \<Rightarrow> fields \<Rightarrow> fields \<Rightarrow> bool \<Rightarrow> io
     \<Rightarrow> (exn + response) \<times> (BaseClient \<times> io)" where
  "request ev c method endpoint params data retry_on_rate_limit w =
     (let url = base_url c @ ''/'' @ endpoint;
          call = (if upper method = ''GET'' then ClientGet url params
                  else if upper method = ''POST'' then ClientPost url params data
                  else ClientRequest method url params data);
          r = request_loop ev (retry_handler c) call retry_on_rate_limit
                [0 .. max_retries (retry_handler c)] (rate_limiter c, w)
      in (fst r, (c\<lparr>rate_limiter := fst (snd r)\<rparr>, snd (snd r))))"

section \<open>History session manager (\<open>clients/session_manager.py\<close>)\<close>

record PipelineStep =
  step_number :: int
  operation :: string
  database :: string
  query_key :: pyval
  result_count :: pyval
  parameters :: "(string \<times> pyval) list"

text \<open>
  The injected client. A search result is a dictionary; of a link result the manager
  reads \<open>linksets\<close> and of each link set \<open>ids\<close>, either of which may be missing. Each
  operation is given the number of calls the client has received before, so that it
  may answer the same call differently over time; \<open>Inl\<close> is an exception it raises.
\<close>

type_synonym link_result = "string list option list option"

record client =
  search :: "nat \<Rightarrow> string \<Rightarrow> string \<Rightarrow> bool \<Rightarrow> exn + (string \<times> pyval) list"
  link :: "nat \<Rightarrow> string \<Rightarrow> string \<Rightarrow> string \<Rightarrow> pyval \<Rightarrow> pyval \<Rightarrow> string option
             \<Rightarrow> exn + link_result"

datatype client_call =
    SearchCall string string bool
  | LinkCall string string string pyval pyval "string option"

text \<open>The manager's fields; \<open>client_log\<close> is what its client has been asked so far.\<close>

record SessionManager =
  web_env :: pyval
  steps :: "PipelineStep list"
  step_counter :: int
  client_log :: "client_call list"

definition SessionManager_init :: SessionManager where
  "SessionManager_init = \<lparr>web_env = PNone, steps = [], step_counter = 0, client_log = []\<rparr>"

text \<open>\<open>d.get(k)\<close> and \<open>d.get(k, default)\<close>.\<close>

definition dict_get :: "(string \<times> pyval) list \<Rightarrow> string \<Rightarrow> pyval \<Rightarrow> pyval" where
  "dict_get d k dflt = (case map_of d k of Some v \<Rightarrow> v | None \<Rightarrow> dflt)"

definition or_default :: "'a \<Rightarrow> 'a option \<Rightarrow> 'a" where
  "or_default d x = (case x of None \<Rightarrow> d | Some v \<Rightarrow> v)"

definition of_opt_str :: "string option \<Rightarrow> pyval" where
  "of_opt_str x = (case x of None \<Rightarrow> PNone | Some s \<Rightarrow> PStr s)"

definition of_opt_int :: "int option \<Rightarrow> pyval" where
  "of_opt_int x = (case x of None \<Rightarrow> PNone | Some i \<Rightarrow> PInt i)"

definition start_session ::
  "client \<Rightarrow> string \<Rightarrow> string \<Rightarrow> SessionManager \<Rightarrow> (exn + PipelineStep) \<times> SessionManager" where
  "start_session cl db query sm =
     (let sm1 = sm\<lparr>client_log := client_log sm @ [SearchCall db query True]\<rparr>
      in case search cl (length (client_log sm)) db query True of
           Inl e \<Rightarrow> (Inl e, sm1)
         | Inr result \<Rightarrow>
             let sm2 = sm1\<lparr>web_env := dict_get result ''web_env'' PNone\<rparr>;
                 qk = dict_get result ''query_key'' PNone
             in if truthy (web_env sm2) \<and> truthy qk then
                  (let sm3 = sm2\<lparr>step_counter := step_counter sm2 + 1\<rparr>;
                       step = \<lparr>step_number = step_counter sm3, operation = ''search'',
                               database = db, query_key = qk,
                               result_count = dict_get result ''count'' (PInt 0),
                               parameters = [(''query'', PStr query)]\<rparr>
                   in (Inr step, sm3\<lparr>steps := steps sm3 @ [step]\<rparr>))
                else
                  (Inl (raise_new PubMedError []
                     [(''message'', PStr ''Failed to start session: no History data returned'')]),
                   sm2))"

definition add_search_step ::
  "client \<Rightarrow> string \<Rightarrow> string \<Rightarrow> string option \<Rightarrow> string \<Rightarrow> SessionManager
     \<Rightarrow> (exn + PipelineStep) \<times> SessionManager" where
  "add_search_step cl db query combine_with combine_operator sm =
     (if truthy (web_env sm) then
        (let full_query = (if truthy (of_opt_str combine_with)
                             then ''#'' @ or_default [] combine_with @ '' '' @ combine_operator
                                  @ '' ('' @ query @ '')''
                           else query);
             sm1 = sm\<lparr>client_log := client_log sm @ [SearchCall db full_query True]\<rparr>
         in case search cl (length (client_log sm)) db full_query True of
              Inl e \<Rightarrow> (Inl e, sm1)
            | Inr result \<Rightarrow>
                let sm2 = (if truthy (dict_get result ''web_env'' PNone)
                             then sm1\<lparr>web_env := dict_get result ''web_env'' PNone\<rparr>
                           else sm1);
                    qk = dict_get result ''query_key'' PNone;
                    sm3 = sm2\<lparr>step_counter := step_counter sm2 + 1\<rparr>;
                    step = \<lparr>step_number = step_counter sm3, operation = ''search'',
                            database = db, query_key = qk,
                            result_count = dict_get result ''count'' (PInt 0),
                            parameters = [(''query'', PStr query),
                                          (''combined_with'', of_opt_str combine_with),
                                          (''operator'', PStr combine_operator)]\<rparr>
                in (Inr step, sm3\<lparr>steps := steps sm3 @ [step]\<rparr>))
      else start_session cl db query sm)"

definition add_link_step ::
  "client \<Rightarrow> string \<Rightarrow> string \<Rightarrow> string option \<Rightarrow> int option \<Rightarrow> SessionManager
     \<Rightarrow> (exn + PipelineStep) \<times> SessionManager" where
  "add_link_step cl from_db to_db link_name from_step sm =
     (if truthy (web_env sm) then
        (case (if truthy (of_opt_int from_step) then
                 (case find (\<lambda>s. Some (step_number s) = from_step) (steps sm) of
                    None \<Rightarrow>
                      Inl (raise_new PubMedError []
                        [(''message'', PStr (''Step '' @ str_int (or_default 0 from_step)
                                             @ '' not found in pipeline''))])
                  | Some source_step \<Rightarrow> Inr (query_key source_step))
               else if steps sm = [] then
                 Inl (raise_new PubMedError []
                   [(''message'', PStr ''No previous steps in pipeline'')])
               else Inr (query_key (last (steps sm)))) of
           Inl e \<Rightarrow> (Inl e, sm)
         | Inr qk \<Rightarrow>
             let sm1 = sm\<lparr>client_log := client_log sm @
                            [LinkCall from_db to_db ''neighbor_history'' qk (web_env sm) link_name]\<rparr>
             in (case link cl (length (client_log sm)) from_db to_db ''neighbor_history'' qk
                       (web_env sm) link_name of
                  Inl e \<Rightarrow> (Inl e, sm1)
                | Inr result \<Rightarrow>
                    let linksets = or_default [] result;
                        total_linked = sum_list (map (\<lambda>ls. int (length (or_default [] ls))) linksets);
                        new_query_key = PStr (str_int (int (length (steps sm1)) + 1));
                        sm2 = sm1\<lparr>step_counter := step_counter sm1 + 1\<rparr>;
                        step = \<lparr>step_number = step_counter sm2, operation = ''link'',
                                database = to_db, query_key = new_query_key,
                                result_count = PInt total_linked,
                                parameters = [(''from_db'', PStr from_db),
                                              (''link_name'', of_opt_str link_name),
                                              (''from_step'', of_opt_int from_step)]\<rparr>
                    in (Inr step, sm2\<lparr>steps := steps sm2 @ [step]\<rparr>)))
      else
        (Inl (raise_new PubMedError []
           [(''message'', PStr ''Cannot add link step: no active session'')]),
         sm))"

text \<open>\<open>get_pipeline_summary\<close>: the dictionary it returns, one entry per step.\<close>

record step_entry =
  entry_step :: int
  entry_operation :: string
  entry_database :: string
  entry_query_key :: pyval
  entry_result_count :: pyval
  entry_parameters :: "(string \<times> pyval) list"

record summary =
  summary_web_env :: pyval
  total_steps :: int
  summary_steps :: "step_entry list"
  final_result_count :: pyval

definition get_pipeline_summary :: "SessionManager \<Rightarrow> summary" where
  "get_pipeline_summary sm =
     \<lparr>summary_web_env = web_env sm,
      total_steps = int (length (steps sm)),
      summary_steps =
        map (\<lambda>s. \<lparr>entry_step = step_number s, entry_operation = operation s,
                   entry_database = database s, entry_query_key = query_key s,
                   entry_result_count = result_count s,
                   entry_parameters = parameters s\<rparr>) (steps sm),
      final_result_count = (if steps sm = [] then PInt 0 else result_count (last (steps sm)))\<rparr>"

definition reset :: "SessionManager \<Rightarrow> SessionManager" where
  "reset sm = sm\<lparr>web_env := PNone, steps := [], step_counter := 0\<rparr>"

text \<open>
  A pipeline as its caller writes it: the calls on one manager, in order. Running it
  stops at the first call that raises.
\<close>

datatype session_op =
    StartSession string string
  | AddSearchStep string string "string option" string
  | AddLinkStep string string "string option" "int option"

fun exec_op :: "client \<Rightarrow> session_op \<Rightarrow> SessionManager \<Rightarrow> (exn + PipelineStep) \<times> SessionManager" where
  "exec_op cl (StartSession db q) sm = start_session cl db q sm"
| "exec_op cl (AddSearchStep db q cw oper) sm = add_search_step cl db q cw oper sm"
| "exec_op cl (AddLinkStep from_db to_db lname fs) sm = add_link_step cl from_db to_db lname fs sm"

fun op_kind :: "session_op \<Rightarrow> string" where
  "op_kind (StartSession db q) = ''search''"
| "op_kind (AddSearchStep db q cw oper) = ''search''"
| "op_kind (AddLinkStep from_db to_db lname fs) = ''link''"

fun op_db :: "session_op \<Rightarrow> string" where
  "op_db (StartSession db q) = db"
| "op_db (AddSearchStep db q cw oper) = db"
| "op_db (AddLinkStep from_db to_db lname fs) = to_db"

fun run_ops :: "client \<Rightarrow> session_op list \<Rightarrow> SessionManager \<Rightarrow> exn + SessionManager" where
  "run_ops cl [] sm = Inr sm"
| "run_ops cl (x # xs) sm =
     (case exec_op cl x sm of
        (Inl e, sm') \<Rightarrow> Inl e
      | (Inr step, sm') \<Rightarrow> run_ops cl xs sm')"

section \<open>Example environments\<close>

text \<open>
  Environments for the concrete runs below: a clock that stands still at 0, a transport
  whose \<open>n\<close>-th outcome is \<open>outs n\<close> whatever the call, and a \<open>float()\<close> that reads the
  one string \<open>"5"\<close>.
\<close>

definition scripted_env :: "(nat \<Rightarrow> outcome) \<Rightarrow> env" where
  "scripted_env outs =
     \<lparr>monotonic = (\<lambda>n. 0), transport = (\<lambda>n call. outs n),
      float_of_str = (\<lambda>s. if s = ''5'' then Some 5 else None)\<rparr>"

definition always :: "outcome \<Rightarrow> nat \<Rightarrow> outcome" where
  "always out n = out"

definition first_then :: "outcome \<Rightarrow> outcome \<Rightarrow> nat \<Rightarrow> outcome" where
  "first_then out rest n = (if n = 0 then out else rest)"

definition example_client :: BaseClient where
  "example_client = BaseClient_init None 0 ''https://h/'' None 60"

text \<open>The same client built with an API key, whose limiter holds 10 units.\<close>

definition example_keyed_client :: BaseClient where
  "example_keyed_client = BaseClient_init None 0 ''https://h/'' (Some ''key'') 60"

text \<open>
  A client for the session manager that answers its \<open>n\<close>-th call from a script: a
  search with the \<open>n\<close>-th dictionary of the list, a link with a fixed result.
\<close>

definition scripted_client :: "(string \<times> pyval) list list \<Rightarrow> link_result \<Rightarrow> client" where
  "scripted_client replies linked =
     \<lparr>search = (\<lambda>n db q h. if n < length replies then Inr (replies ! n)
                             else Inl (type_error ''no scripted reply'')),
      link = (\<lambda>n dbfrom db cmd qk we lname. Inr linked)\<rparr>"

text \<open>
  The manager after \<open>start_session("pubmed", "cancer")\<close> answered with the handle
  \<open>ENV1\<close>, the query key \<open>1\<close> and the count 500.
\<close>

definition active_session :: SessionManager where
  "active_session =
     \<lparr>web_env = PStr ''ENV1'',
      steps = [\<lparr>step_number = 1, operation = ''search'', database = ''pubmed'',
                query_key = PStr ''1'', result_count = PInt 500,
                parameters = [(''query'', PStr ''cancer'')]\<rparr>],
      step_counter = 1,
      client_log = [SearchCall ''pubmed'' ''cancer'' True]\<rparr>"

section \<open>Properties of the limiter and of the retry policy\<close>

lemma acquire_keeps_config:
  "max_requests (snd (acquire now rl)) = max_requests rl \<and>
   window (snd (acquire now rl)) = window rl"
  by (simp add: acquire_def Let_def)

lemma acquire_ok:
  assumes "window rl \<noteq> 0" and "max_requests rl \<noteq> 0"
  shows "\<exists>sl. fst (acquire now rl) = Inr sl"
  using assms by (simp add: acquire_def Let_def)

lemma acquire_raises_iff:
  "(\<exists>e. fst (acquire now rl) = Inl e) \<longleftrightarrow> window rl = 0 \<or> max_requests rl = 0"
  by (auto simp add: acquire_def Let_def)




lemma float_in_range: "\<bar>x\<bar> < 2 ^ 970 \<Longrightarrow> \<not> float_overflows x"
proof -
  have "(2::real) ^ 1024 = 2 ^ 54 * 2 ^ 970"
    by (simp add: power_add [symmetric])
  moreover have "(2::real) \<le> 2 ^ 54"
    by simp
  ultimately have "(2::real) * 2 ^ 970 \<le> 2 ^ 1024"
    by simp
  then show "\<bar>x\<bar> < 2 ^ 970 \<Longrightarrow> \<not> float_overflows x"
    by (simp add: float_overflows_def)
qed

text \<open>
  Against claim C5: with base delay 1, factor 2 and maximum 60, the attempt 1024 has no
  delay. \<open>2.0 ** 1024\<close> is out of the float range, so \<open>get_delay\<close> raises \<open>OverflowError\<close>
  instead of returning the maximum.
\<close>

theorem get_delay_1024_overflows:
  "get_delay \<lparr>max_retries = 3, base_delay = 1, backoff_factor = 2, max_delay = 60\<rparr> 1024 =
     Inl overflow_error"
proof -
  have "\<not> float_overflows (real_of_int 1024)"
    by (rule float_in_range) simp
  moreover have "float_overflows (power_int (2::real) 1024)"
    by (simp add: float_overflows_def power_int_def)
  ultimately show ?thesis
    by (simp add: get_delay_def)
qed

text \<open>
  Claim C5, with the float range. The delay of the retry policy is a function of the
  configuration and the attempt only. For every attempt \<open>n \<ge> 0\<close>: if \<open>n\<close> or
  \<open>backoff_factor^n\<close> is out of the float range the call raises \<open>OverflowError\<close>, and
  otherwise the delay is \<open>min(base_delay * backoff_factor^n, max_delay)\<close>. With base delay
  1, factor 2 and maximum 60 the delays of attempts 0, 1, 2, 3 and 10 are 1, 2, 4, 8 and
  60.
\<close>

theorem get_delay_formula:
  "(0 \<le> attempt \<longrightarrow>
      get_delay rh attempt =
        (if float_overflows (real_of_int attempt) \<or>
            float_overflows (backoff_factor rh ^ nat attempt)
           then Inl overflow_error
         else Inr (min (base_delay rh * backoff_factor rh ^ nat attempt) (max_delay rh)))) \<and>
   (let rh60 = \<lparr>max_retries = m, base_delay = 1, backoff_factor = 2, max_delay = 60\<rparr>
    in get_delay rh60 0 = Inr 1 \<and> get_delay rh60 1 = Inr 2 \<and> get_delay rh60 2 = Inr 4 \<and>
       get_delay rh60 3 = Inr 8 \<and> get_delay rh60 10 = Inr 60)"
proof -
  have small: "\<not> float_overflows 0" "\<not> float_overflows 1" "\<not> float_overflows 2"
    "\<not> float_overflows 3" "\<not> float_overflows 4" "\<not> float_overflows 8"
    "\<not> float_overflows 10" "\<not> float_overflows 1024"
    by (rule float_in_range, simp)+
  show ?thesis
    using small by (simp add: get_delay_def Let_def power_int_def)
qed

theorem get_delay_formula_witness:
  "(0::int) \<le> 5 \<and>
   get_delay \<lparr>max_retries = 3, base_delay = 1, backoff_factor = 3/2, max_delay = 60\<rparr> 5 =
     Inr (243/32)"
proof -
  have "\<not> float_overflows 5" "\<not> float_overflows (243/32)"
    by (rule float_in_range, simp)+
  then show ?thesis
    using get_delay_formula
      [of 5 "\<lparr>max_retries = 3, base_delay = 1, backoff_factor = 3/2, max_delay = 60\<rparr>" 0]
    by (simp add: power_divide)
qed

lemma acquire_inv:
  assumes "0 \<le> max_requests rl" and "0 < window rl" and "0 \<le> tokens rl"
    and "tokens rl \<le> real_of_int (max_requests rl)" and "last_update rl \<le> now"
  shows "0 \<le> tokens (snd (acquire now rl)) \<and>
         tokens (snd (acquire now rl)) \<le> real_of_int (max_requests rl) \<and>
         last_update (snd (acquire now rl)) = now"
proof -
  let ?c = "real_of_int (max_requests rl)"
  have "0 \<le> (now - last_update rl) * (?c / window rl)"
    using assms by simp
  then have "0 \<le> tokens rl + (now - last_update rl) * (?c / window rl)"
    using assms(3) by linarith
  then show ?thesis
    using assms by (auto simp add: acquire_def Let_def min_def)
qed

lemma acquire_all_inv:
  assumes "0 \<le> max_requests rl" and "0 < window rl" and "0 \<le> tokens rl"
    and "tokens rl \<le> real_of_int (max_requests rl)" and "sorted (last_update rl # ts)"
  shows "0 \<le> tokens (acquire_all ts rl) \<and>
         tokens (acquire_all ts rl) \<le> real_of_int (max_requests rl) \<and>
         max_requests (acquire_all ts rl) = max_requests rl \<and>
         window (acquire_all ts rl) = window rl \<and>
         last_update (acquire_all ts rl) = last (last_update rl # ts)"
  using assms
proof (induction ts arbitrary: rl)
  case Nil
  then show ?case by simp
next
  case (Cons t ts)
  let ?rl = "snd (acquire t rl)"
  have le: "last_update rl \<le> t" using Cons.prems(5) by simp
  have inv: "0 \<le> tokens ?rl \<and> tokens ?rl \<le> real_of_int (max_requests rl) \<and> last_update ?rl = t"
    using acquire_inv [OF Cons.prems(1-4) le] .
  have cfg: "max_requests ?rl = max_requests rl \<and> window ?rl = window rl"
    by (rule acquire_keeps_config)
  have srt: "sorted (last_update ?rl # ts)"
    using Cons.prems(5) inv by simp
  have "0 \<le> tokens (acquire_all ts ?rl) \<and>
         tokens (acquire_all ts ?rl) \<le> real_of_int (max_requests ?rl) \<and>
         max_requests (acquire_all ts ?rl) = max_requests ?rl \<and>
         window (acquire_all ts ?rl) = window ?rl \<and>
         last_update (acquire_all ts ?rl) = last (last_update ?rl # ts)"
    using Cons.IH [of ?rl] Cons.prems(1,2) inv cfg srt by simp
  then show ?case using cfg inv by simp
qed

lemma available_tokens_mono:
  assumes "0 \<le> max_requests rl" and "0 < window rl" and "T1 \<le> T2"
  shows "\<exists>a1 a2. available_tokens T1 rl = Inr a1 \<and> available_tokens T2 rl = Inr a2 \<and>
           a1 \<le> a2 \<and> a2 \<le> real_of_int (max_requests rl)"
proof -
  let ?c = "real_of_int (max_requests rl)"
  have "(T1 - last_update rl) * ?c \<le> (T2 - last_update rl) * ?c"
    using assms(1,3) by (simp add: mult_right_mono)
  then have "(T1 - last_update rl) * ?c / window rl \<le> (T2 - last_update rl) * ?c / window rl"
    using assms(2) by (simp add: divide_right_mono)
  then show ?thesis
    using assms by (simp add: available_tokens_def Let_def min_def)
qed

text \<open>
  Claim C6. A limiter of capacity \<open>C \<ge> 0\<close> and window \<open>W > 0\<close>, created at time \<open>t0\<close>
  and acquired from at the times \<open>ts\<close> of a clock that never runs backwards: its budget
  is between 0 and \<open>C\<close>, and the refilled budget read at two later times
  \<open>T1 \<le> T2\<close>, with no acquisition in between, is between 0 and \<open>C\<close> at both and not
  smaller at \<open>T2\<close> than at \<open>T1\<close>.
\<close>

theorem refill_bounded_and_monotone:
  assumes "0 \<le> C" and "0 < W" and "sorted (t0 # ts @ [T1, T2])"
  shows "let rl = acquire_all ts (RateLimiter_init C W t0)
         in 0 \<le> tokens rl \<and> tokens rl \<le> real_of_int C \<and>
            (\<exists>a1 a2. available_tokens T1 rl = Inr a1 \<and> available_tokens T2 rl = Inr a2 \<and>
               0 \<le> a1 \<and> a1 \<le> a2 \<and> a2 \<le> real_of_int C \<and>
               tokens rl \<le> a1)"
proof -
  let ?init = "RateLimiter_init C W t0"
  let ?rl = "acquire_all ts ?init"
  have s1: "sorted (last_update ?init # ts)"
    using assms(3) by (simp add: RateLimiter_init_def sorted_append)
  have inv: "0 \<le> tokens ?rl \<and> tokens ?rl \<le> real_of_int C \<and> max_requests ?rl = C \<and>
             window ?rl = W \<and> last_update ?rl = last (t0 # ts)"
    using acquire_all_inv [of ?init ts] assms(1,2) s1 by (simp add: RateLimiter_init_def)
  have t12: "T1 \<le> T2" using assms(3) by (simp add: sorted_append)
  have lt1: "last (t0 # ts) \<le> T1"
    using assms(3) by (cases ts rule: rev_cases) (auto simp add: sorted_append)
  obtain a1 a2 where a: "available_tokens T1 ?rl = Inr a1" "available_tokens T2 ?rl = Inr a2"
      "a1 \<le> a2" "a2 \<le> real_of_int C"
    using available_tokens_mono [of ?rl T1 T2] assms(1,2) inv t12 by auto
  have "0 \<le> (T1 - last_update ?rl) * (real_of_int C / W)"
    using assms(1,2) inv lt1 by simp
  then have "tokens ?rl \<le> a1"
    using a(1) inv assms(2) by (auto simp add: available_tokens_def Let_def min_def split: if_splits)
  then show ?thesis using a inv by (auto simp add: Let_def)
qed

theorem refill_bounded_and_monotone_witness:
  "let rl = acquire_all [0, 0, 0, 1/3] (RateLimiter_init 3 1 0)
   in tokens rl = 0 \<and> available_tokens (1/2) rl = Inr (1/2) \<and> available_tokens 2 rl = Inr 3"
  using refill_bounded_and_monotone [of 3 1 0 "[0, 0, 0, 1/3]" "1/2" 2]
  by (simp add: Let_def RateLimiter_init_def acquire_def available_tokens_def)



section \<open>Properties of the request core\<close>

lemma str503: "str_int 503 = ''503''"
  by (simp add: str_int_def str_nat.simps)

lemma new_exn_details_rejected:
  "new_exn InvalidQueryError [] [(''message'', m), (''details'', d)] =
     Inl (type_error ''got an unexpected keyword argument details'')"
  by (simp add: new_exn_def bind_args_def)

lemma map_http_status_to_error_raises:
  "map_http_status_to_error status body =
     Inl (type_error ''got an unexpected keyword argument details'')"
  by (simp add: map_http_status_to_error_def new_exn_details_rejected bind_exn_def)

lemma raise_ServiceUnavailable:
  "raise_new ServiceUnavailableError [] [(''message'', m), (''retry_after'', ra)] =
     \<lparr>cls = ServiceUnavailableError,
      attrs = [(''message'', m), (''details'', PNone), (''retry_after'', ra)]\<rparr>"
  by (simp add: raise_new_def new_exn_def bind_args_def)

lemma raise_RateLimit:
  "raise_new RateLimitError [] [(''message'', m), (''retry_after'', ra)] =
     \<lparr>cls = RateLimitError,
      attrs = [(''message'', m), (''details'', PNone), (''retry_after'', ra)]\<rparr>"
  by (simp add: raise_new_def new_exn_def bind_args_def)

lemma raise_PubMedError_message:
  "raise_new PubMedError [] [(''message'', m)] =
     \<lparr>cls = PubMedError, attrs = [(''message'', m), (''details'', PNone)]\<rparr>"
  by (simp add: raise_new_def new_exn_def bind_args_def)

lemma wait_in_range:
  assumes "0 \<le> attempt" and "\<not> float_overflows (real_of_int attempt)"
    and "\<not> float_overflows (backoff_factor rh ^ nat attempt)"
  shows "wait rh attempt =
           Inr (min (base_delay rh * backoff_factor rh ^ nat attempt) (max_delay rh))"
  using assms by (simp add: wait_def get_delay_def power_int_def)

lemma configured_factor_in_range:
  assumes "0 \<le> k" and "k < 3"
  shows "\<not> float_overflows (real_of_int k) \<and> \<not> float_overflows ((3 / 2) ^ nat k)"
proof -
  consider "k = 0" | "k = 1" | "k = 2" using assms by linarith
  then show ?thesis
  proof cases
    case 1
    have "\<not> float_overflows 0" "\<not> float_overflows 1"
      by (rule float_in_range, simp)+
    then show ?thesis using 1 by simp
  next
    case 2
    have "\<not> float_overflows 1" "\<not> float_overflows (3 / 2)"
      by (rule float_in_range, simp)+
    then show ?thesis using 2 by simp
  next
    case 3
    have "\<not> float_overflows 2" "\<not> float_overflows ((3 / 2)\<^sup>2)"
      by (rule float_in_range, simp add: power2_eq_square)+
    then show ?thesis using 3 by simp
  qed
qed

lemma configured_factor_waits:
  assumes "backoff_factor rh = RETRY_BACKOFF_FACTOR" and "0 \<le> k" and "k < 3"
  shows "\<exists>d. wait rh k = Inr d"
proof -
  have bf: "backoff_factor rh = 3 / 2"
    using assms(1) by (simp only: RETRY_BACKOFF_FACTOR_def)
  have "\<not> float_overflows (real_of_int k) \<and> \<not> float_overflows (backoff_factor rh ^ nat k)"
    unfolding bf by (rule configured_factor_in_range [OF assms(2,3)])
  then show ?thesis
    using wait_in_range [OF assms(2)] by blast
qed

lemma acquire_all_append:
  "acquire_all (ts @ [t]) rl = snd (acquire t (acquire_all ts rl))"
  by (induction ts arbitrary: rl) simp_all

lemma acquire_all_keeps_config:
  "max_requests (acquire_all ts rl) = max_requests rl \<and>
   window (acquire_all ts rl) = window rl"
  by (induction ts arbitrary: rl) (simp_all add: acquire_keeps_config)

lemma acquire_leaves_room:
  assumes "window rl \<noteq> 0" and "0 < max_requests rl"
  shows "tokens (snd (acquire now rl)) \<le> real_of_int (max_requests rl) - 1"
  using assms by (auto simp add: acquire_def Let_def min_def)

lemma acquire_all_frozen:
  assumes "window rl \<noteq> 0" and "real n \<le> tokens rl"
    and "tokens rl \<le> real_of_int (max_requests rl)"
  shows "acquire_all (replicate n (last_update rl)) rl = rl\<lparr>tokens := tokens rl - real n\<rparr>"
  using assms
proof (induction n arbitrary: rl)
  case 0
  then show ?case by simp
next
  case (Suc n)
  let ?rl = "rl\<lparr>tokens := tokens rl - 1\<rparr>"
  have one: "1 \<le> tokens rl" using Suc.prems(2) by simp
  have a: "snd (acquire (last_update rl) rl) = ?rl"
    using Suc.prems(1,3) one by (simp add: acquire_def Let_def min_def)
  have "acquire_all (replicate n (last_update ?rl)) ?rl = ?rl\<lparr>tokens := tokens ?rl - real n\<rparr>"
    using Suc.prems by (intro Suc.IH) auto
  then show ?case
    using a by simp
qed

lemma attempt_once_5xx_retry:
  assumes "window (fst s) \<noteq> 0" and "max_requests (fst s) \<noteq> 0"
    and "transport ev (length (sent (snd s))) call = Response r"
    and "500 \<le> status_code r"
    and "wait rh attempt = Inr d" and "attempt < max_retries rh"
  shows "fst (attempt_once ev rh call b attempt s) = None \<and>
         clock_reads (snd (snd (attempt_once ev rh call b attempt s))) = Suc (clock_reads (snd s)) \<and>
         sent (snd (snd (attempt_once ev rh call b attempt s))) = sent (snd s) @ [call] \<and>
         fst (snd (attempt_once ev rh call b attempt s)) =
           snd (acquire (monotonic ev (clock_reads (snd s))) (fst s))"
proof -
  obtain sl where a: "fst (acquire (monotonic ev (clock_reads (snd s))) (fst s)) = Inr sl"
    using acquire_ok [OF assms(1,2)] by blast
  show ?thesis
    using a assms(3-6)
    by (simp add: attempt_once_def Let_def wait_and_continue_def)
qed

lemma attempt_once_5xx_final:
  assumes "window (fst s) \<noteq> 0" and "max_requests (fst s) \<noteq> 0"
    and "transport ev (length (sent (snd s))) call = Response r"
    and "500 \<le> status_code r"
    and "\<not> attempt < max_retries rh"
  shows "fst (attempt_once ev rh call b attempt s) =
           Some (Inl \<lparr>cls = ServiceUnavailableError,
                      attrs = [(''message'', PStr (''Server error: '' @ str_int (status_code r))),
                               (''details'', PNone), (''retry_after'', PFloat 60)]\<rparr>) \<and>
         clock_reads (snd (snd (attempt_once ev rh call b attempt s))) = Suc (clock_reads (snd s)) \<and>
         sent (snd (snd (attempt_once ev rh call b attempt s))) = sent (snd s) @ [call] \<and>
         fst (snd (attempt_once ev rh call b attempt s)) =
           snd (acquire (monotonic ev (clock_reads (snd s))) (fst s))"
proof -
  obtain sl where a: "fst (acquire (monotonic ev (clock_reads (snd s))) (fst s)) = Inr sl"
    using acquire_ok [OF assms(1,2)] by blast
  show ?thesis
    using a assms(3-5)
    by (simp add: attempt_once_def Let_def raise_ServiceUnavailable)
qed

lemma request_loop_always_5xx:
  assumes tr: "\<And>n c. \<exists>r. transport ev n c = Response r \<and> status_code r = code"
    and code: "500 \<le> code"
    and waits: "\<And>j. 0 \<le> j \<Longrightarrow> j < max_retries rh \<Longrightarrow> \<exists>d. wait rh j = Inr d"
  shows "window (fst s) \<noteq> 0 \<Longrightarrow> max_requests (fst s) \<noteq> 0 \<Longrightarrow> 0 \<le> k \<Longrightarrow> k \<le> max_retries rh \<Longrightarrow>
         fst (request_loop ev rh call b [k .. max_retries rh] s) =
           Inl \<lparr>cls = ServiceUnavailableError,
                attrs = [(''message'', PStr (''Server error: '' @ str_int code)),
                         (''details'', PNone), (''retry_after'', PFloat 60)]\<rparr> \<and>
         clock_reads (snd (snd (request_loop ev rh call b [k .. max_retries rh] s))) =
           clock_reads (snd s) + nat (max_retries rh - k + 1) \<and>
         sent (snd (snd (request_loop ev rh call b [k .. max_retries rh] s))) =
           sent (snd s) @ replicate (nat (max_retries rh - k + 1)) call \<and>
         fst (snd (request_loop ev rh call b [k .. max_retries rh] s)) =
           acquire_all
             (map (monotonic ev)
                [clock_reads (snd s) ..< clock_reads (snd s) + nat (max_retries rh - k + 1)])
             (fst s)"
proof (induction "nat (max_retries rh - k)" arbitrary: k s)
  case 0
  then have k: "k = max_retries rh" by simp
  obtain r where r: "transport ev (length (sent (snd s))) call = Response r" "status_code r = code"
    using tr by blast
  let ?a = "attempt_once ev rh call b k s"
  have f: "fst ?a =
           Some (Inl \<lparr>cls = ServiceUnavailableError,
                      attrs = [(''message'', PStr (''Server error: '' @ str_int (status_code r))),
                               (''details'', PNone), (''retry_after'', PFloat 60)]\<rparr>) \<and>
         clock_reads (snd (snd ?a)) = Suc (clock_reads (snd s)) \<and>
         sent (snd (snd ?a)) = sent (snd s) @ [call] \<and>
         fst (snd ?a) = snd (acquire (monotonic ev (clock_reads (snd s))) (fst s))"
    using attempt_once_5xx_final [OF "0.prems"(1,2) r(1)] r(2) code k by simp
  have l: "[k .. max_retries rh] = [k]" using k by simp
  show ?case
    using f r(2) k unfolding l
    by (cases ?a) auto
next
  case (Suc m)
  then have lt: "k < max_retries rh" by linarith
  obtain r where r: "transport ev (length (sent (snd s))) call = Response r" "status_code r = code"
    using tr by blast
  obtain d where d: "wait rh k = Inr d"
    using waits [OF Suc.prems(3) lt] by blast
  let ?a = "attempt_once ev rh call b k s"
  have f: "fst ?a = None \<and>
         clock_reads (snd (snd ?a)) = Suc (clock_reads (snd s)) \<and>
         sent (snd (snd ?a)) = sent (snd s) @ [call] \<and>
         fst (snd ?a) = snd (acquire (monotonic ev (clock_reads (snd s))) (fst s))"
    using attempt_once_5xx_retry [OF Suc.prems(1,2) r(1) _ d lt] r(2) code by simp
  have cfg: "window (fst (snd ?a)) \<noteq> 0" "max_requests (fst (snd ?a)) \<noteq> 0"
    using f Suc.prems(1,2) by (simp_all add: acquire_keeps_config)
  have l: "[k .. max_retries rh] = k # [k + 1 .. max_retries rh]"
    using lt by (simp add: upto_rec1)
  have m: "m = nat (max_retries rh - (k + 1))" using Suc.hyps(2) by linarith
  have k1: "0 \<le> k + 1" "k + 1 \<le> max_retries rh"
    using Suc.prems(3) lt by simp_all
  have ih: "fst (request_loop ev rh call b [k + 1 .. max_retries rh] (snd ?a)) =
           Inl \<lparr>cls = ServiceUnavailableError,
                attrs = [(''message'', PStr (''Server error: '' @ str_int code)),
                         (''details'', PNone), (''retry_after'', PFloat 60)]\<rparr> \<and>
         clock_reads (snd (snd (request_loop ev rh call b [k + 1 .. max_retries rh] (snd ?a)))) =
           clock_reads (snd (snd ?a)) + nat (max_retries rh - (k + 1) + 1) \<and>
         sent (snd (snd (request_loop ev rh call b [k + 1 .. max_retries rh] (snd ?a)))) =
           sent (snd (snd ?a)) @ replicate (nat (max_retries rh - (k + 1) + 1)) call \<and>
         fst (snd (request_loop ev rh call b [k + 1 .. max_retries rh] (snd ?a))) =
           acquire_all
             (map (monotonic ev)
                [clock_reads (snd (snd ?a)) ..<
                   clock_reads (snd (snd ?a)) + nat (max_retries rh - (k + 1) + 1)])
             (fst (snd ?a))"
    by (rule Suc.hyps(1) [OF m cfg k1])
  have n: "nat (max_retries rh - k + 1) = Suc (nat (max_retries rh - (k + 1) + 1))"
    using lt by simp
  have step: "request_loop ev rh call b (k # [k + 1 .. max_retries rh]) s =
        request_loop ev rh call b [k + 1 .. max_retries rh] (snd ?a)"
    using f by (cases ?a) auto
  have times: "[clock_reads (snd s) ..< clock_reads (snd s) + Suc j] =
        clock_reads (snd s) # [Suc (clock_reads (snd s)) ..< Suc (clock_reads (snd s)) + j]" for j
    by (simp add: upt_conv_Cons del: upt_Suc)
  show ?case
    unfolding l step n times using ih f by (simp add: replicate_append_same)
qed

text \<open>
  Claim C3. Against a transport that answers every call with status 503, a request of
  a client as \<open>BaseClient\<close> builds it (3 retries, the configured backoff factor, a limiter
  of positive capacity and window) issues exactly 4 HTTP calls and then raises
  \<open>ServiceUnavailableError\<close>. It acquires from the limiter exactly 4 times, once before
  each call, at 4 successive readings of the clock, and the client keeps the limiter
  those 4 acquisitions leave: its budget is at most the capacity minus 1, and when the
  clock stands still and the budget was at least 4, it is the budget before minus 4.
\<close>

theorem always_503_makes_four_attempts:
  assumes "\<And>n call. \<exists>r. transport ev n call = Response r \<and> status_code r = 503"
    and "max_retries (retry_handler c) = 3"
    and "backoff_factor (retry_handler c) = RETRY_BACKOFF_FACTOR"
    and "0 < window (rate_limiter c)" and "0 < max_requests (rate_limiter c)"
  shows "fst (request ev c method endpoint params data b w) =
           Inl \<lparr>cls = ServiceUnavailableError,
                attrs = [(''message'', PStr ''Server error: 503''),
                         (''details'', PNone), (''retry_after'', PFloat 60)]\<rparr> \<and>
         length (sent (snd (snd (request ev c method endpoint params data b w)))) =
           length (sent w) + 4 \<and>
         clock_reads (snd (snd (request ev c method endpoint params data b w))) =
           clock_reads w + 4 \<and>
         fst (snd (request ev c method endpoint params data b w)) =
           c\<lparr>rate_limiter :=
               acquire_all (map (monotonic ev) [clock_reads w ..< clock_reads w + 4])
                 (rate_limiter c)\<rparr> \<and>
         tokens (rate_limiter (fst (snd (request ev c method endpoint params data b w)))) \<le>
           real_of_int (max_requests (rate_limiter c)) - 1 \<and>
         ((\<forall>j<4. monotonic ev (clock_reads w + j) = last_update (rate_limiter c)) \<longrightarrow>
          4 \<le> tokens (rate_limiter c) \<longrightarrow>
          tokens (rate_limiter c) \<le> real_of_int (max_requests (rate_limiter c)) \<longrightarrow>
          tokens (rate_limiter (fst (snd (request ev c method endpoint params data b w)))) =
            tokens (rate_limiter c) - 4)"
proof -
  let ?rh = "retry_handler c"
  let ?rl = "rate_limiter c"
  let ?ts = "map (monotonic ev) [clock_reads w ..< clock_reads w + 4]"
  have waits: "\<exists>d. wait ?rh j = Inr d" if "0 \<le> j" "j < max_retries ?rh" for j
    using configured_factor_waits [OF assms(3) that(1)] that(2) assms(2) by simp
  have loop: "fst (request_loop ev ?rh call b [0 .. max_retries ?rh] (?rl, w)) =
           Inl \<lparr>cls = ServiceUnavailableError,
                attrs = [(''message'', PStr (''Server error: '' @ str_int 503)),
                         (''details'', PNone), (''retry_after'', PFloat 60)]\<rparr> \<and>
         clock_reads (snd (snd (request_loop ev ?rh call b [0 .. max_retries ?rh] (?rl, w)))) =
           clock_reads (snd (?rl, w)) + nat (max_retries ?rh - 0 + 1) \<and>
         sent (snd (snd (request_loop ev ?rh call b [0 .. max_retries ?rh] (?rl, w)))) =
           sent (snd (?rl, w)) @ replicate (nat (max_retries ?rh - 0 + 1)) call \<and>
         fst (snd (request_loop ev ?rh call b [0 .. max_retries ?rh] (?rl, w))) =
           acquire_all
             (map (monotonic ev)
                [clock_reads (snd (?rl, w)) ..<
                   clock_reads (snd (?rl, w)) + nat (max_retries ?rh - 0 + 1)])
             (fst (?rl, w))" for call
    using request_loop_always_5xx [of ev 503 ?rh "(?rl, w)" 0 call b] assms(1,2,4,5) waits
    by simp
  have res: "fst (request ev c method endpoint params data b w) =
           Inl \<lparr>cls = ServiceUnavailableError,
                attrs = [(''message'', PStr ''Server error: 503''),
                         (''details'', PNone), (''retry_after'', PFloat 60)]\<rparr>"
      "length (sent (snd (snd (request ev c method endpoint params data b w)))) =
         length (sent w) + 4"
      "clock_reads (snd (snd (request ev c method endpoint params data b w))) = clock_reads w + 4"
      "fst (snd (request ev c method endpoint params data b w)) =
         c\<lparr>rate_limiter := acquire_all ?ts ?rl\<rparr>"
    using loop assms(2) by (simp_all add: request_def Let_def str503)
  have ts: "?ts = map (monotonic ev) [clock_reads w ..< clock_reads w + 3] @
                  [monotonic ev (clock_reads w + 3)]"
    by (simp add: numeral_eq_Suc)
  have room: "tokens (acquire_all ?ts ?rl) \<le> real_of_int (max_requests ?rl) - 1"
    unfolding ts acquire_all_append
    using acquire_leaves_room
      [of "acquire_all (map (monotonic ev) [clock_reads w ..< clock_reads w + 3]) ?rl"
          "monotonic ev (clock_reads w + 3)"]
      assms(4,5)
    by (simp add: acquire_all_keeps_config)
  have frozen: "tokens (acquire_all ?ts ?rl) = tokens ?rl - 4"
    if "\<forall>j<4. monotonic ev (clock_reads w + j) = last_update ?rl"
      and "4 \<le> tokens ?rl" and "tokens ?rl \<le> real_of_int (max_requests ?rl)"
  proof -
    from that(1)
    have m: "\<And>j. j < 4 \<Longrightarrow> monotonic ev (clock_reads w + j) = last_update ?rl"
      by blast
    have "monotonic ev (clock_reads w + 0) = last_update ?rl"
      "monotonic ev (clock_reads w + 1) = last_update ?rl"
      "monotonic ev (clock_reads w + 2) = last_update ?rl"
      "monotonic ev (clock_reads w + 3) = last_update ?rl"
      using m [of 0] m [of 1] m [of 2] m [of 3] by simp_all
    then have "?ts = replicate 4 (last_update ?rl)"
      by (simp add: numeral_eq_Suc upt_conv_Cons del: upt_Suc)
    then show ?thesis
      using acquire_all_frozen [of ?rl 4] that(2,3) assms(4) by simp
  qed
  show ?thesis
    using res room frozen by simp
qed

theorem always_503_makes_four_attempts_witness:
  "fst (request
          (scripted_env (always (Response \<lparr>status_code = 503, retry_after_header = None,
                                            resp_text = ''busy''\<rparr>)))
          example_keyed_client ''GET'' ''esearch.fcgi'' None None True io_init) =
     Inl \<lparr>cls = ServiceUnavailableError,
          attrs = [(''message'', PStr ''Server error: 503''),
                   (''details'', PNone), (''retry_after'', PFloat 60)]\<rparr> \<and>
   length (sent (snd (snd (request
          (scripted_env (always (Response \<lparr>status_code = 503, retry_after_header = None,
                                            resp_text = ''busy''\<rparr>)))
          example_keyed_client ''GET'' ''esearch.fcgi'' None None True io_init)))) = 4 \<and>
   tokens (rate_limiter example_keyed_client) = 10 \<and>
   tokens (rate_limiter (fst (snd (request
          (scripted_env (always (Response \<lparr>status_code = 503, retry_after_header = None,
                                            resp_text = ''busy''\<rparr>)))
          example_keyed_client ''GET'' ''esearch.fcgi'' None None True io_init)))) = 6"
proof -
  let ?ev = "scripted_env (always (Response \<lparr>status_code = 503, retry_after_header = None,
                                              resp_text = ''busy''\<rparr>))"
  let ?c = example_keyed_client
  let ?res = "request ?ev ?c ''GET'' ''esearch.fcgi'' None None True io_init"
  have p1: "\<exists>r. transport ?ev n call = Response r \<and> status_code r = 503" for n call
    by (simp add: scripted_env_def always_def)
  have p2: "max_retries (retry_handler ?c) = 3"
    and p3: "backoff_factor (retry_handler ?c) = RETRY_BACKOFF_FACTOR"
    and p4: "0 < window (rate_limiter ?c)" and p5: "0 < max_requests (rate_limiter ?c)"
    by (simp_all add: example_keyed_client_def BaseClient_init_def RateLimiter_init_def
        MAX_RETRIES_def)
  have q1: "\<forall>j<4. monotonic ?ev (clock_reads io_init + j) = last_update (rate_limiter ?c)"
    and q2: "4 \<le> tokens (rate_limiter ?c)"
    and q3: "tokens (rate_limiter ?c) \<le> real_of_int (max_requests (rate_limiter ?c))"
    and q4: "tokens (rate_limiter ?c) = 10"
    by (simp_all add: scripted_env_def example_keyed_client_def BaseClient_init_def
        RateLimiter_init_def)
  note th = always_503_makes_four_attempts
    [OF p1 p2 p3 p4 p5, of "''GET''" "''esearch.fcgi''" None None True io_init]
  have "fst ?res =
          Inl \<lparr>cls = ServiceUnavailableError,
               attrs = [(''message'', PStr ''Server error: 503''),
                        (''details'', PNone), (''retry_after'', PFloat 60)]\<rparr>"
    using th by blast
  moreover have "length (sent (snd (snd ?res))) = 4"
    using th by (simp add: io_init_def)
  moreover have "tokens (rate_limiter (fst (snd ?res))) = tokens (rate_limiter ?c) - 4"
    using th q1 q2 q3 by blast
  ultimately show ?thesis
    using q4 by simp
qed

lemma attempt_once_4xx:
  assumes "window (fst s) \<noteq> 0" and "max_requests (fst s) \<noteq> 0"
    and "transport ev (length (sent (snd s))) call = Response r"
    and "400 \<le> status_code r" and "status_code r < 500" and "status_code r \<noteq> 429"
  shows "fst (attempt_once ev rh call b attempt s) =
           Some (Inl (type_error ''got an unexpected keyword argument details'')) \<and>
         clock_reads (snd (snd (attempt_once ev rh call b attempt s))) = Suc (clock_reads (snd s)) \<and>
         sent (snd (snd (attempt_once ev rh call b attempt s))) = sent (snd s) @ [call]"
proof -
  obtain sl where a: "fst (acquire (monotonic ev (clock_reads (snd s))) (fst s)) = Inr sl"
    using acquire_ok [OF assms(1,2)] by blast
  show ?thesis
    using a assms(3-6)
    by (simp add: attempt_once_def Let_def map_http_status_to_error_raises)
qed

lemma client_error_status_raises_TypeError:
  assumes "window (rate_limiter c) \<noteq> 0" and "max_requests (rate_limiter c) \<noteq> 0"
    and "0 \<le> max_retries (retry_handler c)"
    and "\<And>call. transport ev (length (sent w)) call = Response r"
    and "400 \<le> status_code r" and "status_code r < 500" and "status_code r \<noteq> 429"
  shows "fst (request ev c method endpoint params data b w) =
           Inl (type_error ''got an unexpected keyword argument details'') \<and>
         length (sent (snd (snd (request ev c method endpoint params data b w)))) =
           length (sent w) + 1"
proof -
  let ?rh = "retry_handler c"
  have l: "[0 .. max_retries ?rh] = 0 # [0 + 1 .. max_retries ?rh]"
    using assms(3) by (simp add: upto_rec1)
  have loop: "fst (request_loop ev ?rh call b (0 # [0 + 1 .. max_retries ?rh]) (rate_limiter c, w)) =
           Inl (type_error ''got an unexpected keyword argument details'') \<and>
         sent (snd (snd (request_loop ev ?rh call b
                 (0 # [0 + 1 .. max_retries ?rh]) (rate_limiter c, w)))) =
           sent w @ [call]" for call
  proof -
    let ?a = "attempt_once ev ?rh call b 0 (rate_limiter c, w)"
    have f: "fst ?a = Some (Inl (type_error ''got an unexpected keyword argument details'')) \<and>
             clock_reads (snd (snd ?a)) = Suc (clock_reads (snd (rate_limiter c, w))) \<and>
             sent (snd (snd ?a)) = sent (snd (rate_limiter c, w)) @ [call]"
      using attempt_once_4xx [of "(rate_limiter c, w)" ev call r ?rh b 0] assms by simp
    then show ?thesis by (cases ?a) auto
  qed
  show ?thesis
    unfolding request_def Let_def l using loop by simp
qed

text \<open>
  Claim C1, at a 404 response. The request ends after its first HTTP call, but the
  exception that leaves it is not a not-found error carrying the body: it is the
  \<open>TypeError\<close> raised while \<open>map_http_status_to_error\<close> builds its table, since
  \<open>InvalidQueryError\<close> has no parameter \<open>details\<close>.
\<close>

theorem request_404_raises_TypeError:
  "request
     (scripted_env (always (Response \<lparr>status_code = 404, retry_after_header = None,
                                       resp_text = ''Not Found''\<rparr>)))
     example_client ''GET'' ''efetch.fcgi'' None None True io_init =
   (Inl \<lparr>cls = TypeError,
         attrs = [(''message'', PStr ''got an unexpected keyword argument details'')]\<rparr>,
    example_client\<lparr>rate_limiter := (rate_limiter example_client)\<lparr>tokens := 2\<rparr>\<rparr>,
    \<lparr>clock_reads = 1, sleeps = [], sent = [ClientGet ''https://h/efetch.fcgi'' None]\<rparr>)"
  by (simp add: request_def scripted_env_def always_def example_client_def BaseClient_init_def
      RateLimiter_init_def MAX_RETRIES_def io_init_def upper_def upper_char_def rstrip_slash_def
      upto_rec1 attempt_once_def acquire_def map_http_status_to_error_raises type_error_def)

lemma wait_first_attempt:
  assumes "backoff_factor rh = RETRY_BACKOFF_FACTOR"
  shows "wait rh 0 = Inr (min (base_delay rh) (max_delay rh))"
proof -
  have "\<not> float_overflows (real_of_int 0)" "\<not> float_overflows (backoff_factor rh ^ nat 0)"
    by (rule float_in_range, simp)+
  then show ?thesis
    using wait_in_range [of 0 rh] by simp
qed

text \<open>
  Against claim C2: the first response is a 429 whose \<open>Retry-After\<close> header reads 5,
  retries remain, and the request sleeps for the first delay of the backoff schedule,
  1 second, before its second attempt, not for the 5 seconds of the hint.
\<close>

theorem retry_after_hint_is_ignored:
  "sleeps (snd (snd (request
     (scripted_env (first_then
        (Response \<lparr>status_code = 429, retry_after_header = Some ''5'', resp_text = ''slow down''\<rparr>)
        (Response \<lparr>status_code = 200, retry_after_header = None, resp_text = ''ok''\<rparr>)))
     example_client ''GET'' ''esearch.fcgi'' None None True io_init))) = [1] \<and>
   float_of_str
     (scripted_env (first_then
        (Response \<lparr>status_code = 429, retry_after_header = Some ''5'', resp_text = ''slow down''\<rparr>)
        (Response \<lparr>status_code = 200, retry_after_header = None, resp_text = ''ok''\<rparr>)))
     ''5'' = Some 5"
proof -
  have w: "wait \<lparr>max_retries = 3, base_delay = 1, backoff_factor = RETRY_BACKOFF_FACTOR,
                  max_delay = 60\<rparr> 0 = Inr 1"
    using wait_first_attempt
      [of "\<lparr>max_retries = 3, base_delay = 1, backoff_factor = RETRY_BACKOFF_FACTOR,
            max_delay = 60\<rparr>"]
    by simp
  show ?thesis
    by (simp add: request_def scripted_env_def first_then_def example_client_def
        BaseClient_init_def RateLimiter_init_def MAX_RETRIES_def io_init_def upper_def
        upper_char_def rstrip_slash_def upto_rec1 attempt_once_def acquire_def
        wait_and_continue_def w Let_def)
qed

text \<open>
  Claim C2, as the code has it. On a 429 response, with \<open>retry_on_rate_limit\<close> set: while
  retries remain, and the attempt number and the power \<open>backoff_factor^attempt\<close> are
  within the float range, the pass sleeps for the delay of the backoff schedule for this
  attempt, whatever the response's \<open>Retry-After\<close> header, and the loop continues; when no
  retries remain and the response has no \<open>Retry-After\<close> header or one that \<open>float()\<close>
  reads as the number \<open>ra\<close>, it raises \<open>RateLimitError\<close> whose \<open>retry_after\<close> is \<open>ra\<close>, or
  60 without the header.
\<close>

theorem rate_limit_retry_waits_backoff:
  assumes "acquire (monotonic ev (clock_reads w)) rl = (Inr slept, rl')"
    and "transport ev (length (sent w)) call = Response r"
    and "status_code r = 429"
    and "0 \<le> attempt"
  shows "(attempt < max_retries rh \<longrightarrow>
          \<not> float_overflows (real_of_int attempt) \<longrightarrow>
          \<not> float_overflows (backoff_factor rh ^ nat attempt) \<longrightarrow>
            attempt_once ev rh call True attempt (rl, w) =
              (None,
               rl',
               \<lparr>clock_reads = Suc (clock_reads w),
                sleeps = sleeps w @ (case slept of None \<Rightarrow> [] | Some d \<Rightarrow> [d]) @
                           [min (base_delay rh * backoff_factor rh ^ nat attempt) (max_delay rh)],
                sent = sent w @ [call]\<rparr>)) \<and>
         (\<not> attempt < max_retries rh \<longrightarrow>
            (case retry_after_header r of None \<Rightarrow> Some 60 | Some h \<Rightarrow> float_of_str ev h) = Some ra \<longrightarrow>
            attempt_once ev rh call True attempt (rl, w) =
              (Some (Inl \<lparr>cls = RateLimitError,
                          attrs = [(''message'', PStr ''Rate limit exceeded after retries''),
                                   (''details'', PNone), (''retry_after'', PFloat ra)]\<rparr>),
               rl',
               \<lparr>clock_reads = Suc (clock_reads w),
                sleeps = sleeps w @ (case slept of None \<Rightarrow> [] | Some d \<Rightarrow> [d]),
                sent = sent w @ [call]\<rparr>))"
  using assms
  by (simp add: attempt_once_def Let_def wait_and_continue_def wait_in_range raise_RateLimit)

theorem rate_limit_retry_waits_backoff_witness:
  "attempt_once
     (scripted_env (always (Response \<lparr>status_code = 429, retry_after_header = Some ''5'',
                                       resp_text = ''slow down''\<rparr>)))
     (retry_handler example_client) (ClientGet ''u'' None) True 0
     (rate_limiter example_client, io_init) =
   (None, (rate_limiter example_client)\<lparr>tokens := 2\<rparr>,
    \<lparr>clock_reads = 1, sleeps = [1], sent = [ClientGet ''u'' None]\<rparr>) \<and>
   attempt_once
     (scripted_env (always (Response \<lparr>status_code = 429, retry_after_header = Some ''5'',
                                       resp_text = ''slow down''\<rparr>)))
     (retry_handler example_client) (ClientGet ''u'' None) True 3
     (rate_limiter example_client, io_init) =
   (Some (Inl \<lparr>cls = RateLimitError,
               attrs = [(''message'', PStr ''Rate limit exceeded after retries''),
                        (''details'', PNone), (''retry_after'', PFloat 5)]\<rparr>),
    (rate_limiter example_client)\<lparr>tokens := 2\<rparr>,
    \<lparr>clock_reads = 1, sleeps = [], sent = [ClientGet ''u'' None]\<rparr>)"
proof -
  have small: "\<not> float_overflows 0" "\<not> float_overflows 1"
    by (rule float_in_range, simp)+
  show ?thesis
    using small
      rate_limit_retry_waits_backoff
        [of "scripted_env (always (Response \<lparr>status_code = 429, retry_after_header = Some ''5'',
                                       resp_text = ''slow down''\<rparr>))"
            io_init "rate_limiter example_client" None
            "(rate_limiter example_client)\<lparr>tokens := 2\<rparr>"
            "ClientGet ''u'' None"
            "\<lparr>status_code = 429, retry_after_header = Some ''5'', resp_text = ''slow down''\<rparr>"
            0 "retry_handler example_client" 5]
      rate_limit_retry_waits_backoff
        [of "scripted_env (always (Response \<lparr>status_code = 429, retry_after_header = Some ''5'',
                                       resp_text = ''slow down''\<rparr>))"
            io_init "rate_limiter example_client" None
            "(rate_limiter example_client)\<lparr>tokens := 2\<rparr>"
            "ClientGet ''u'' None"
            "\<lparr>status_code = 429, retry_after_header = Some ''5'', resp_text = ''slow down''\<rparr>"
            3 "retry_handler example_client" 5]
    by (simp add: scripted_env_def always_def example_client_def BaseClient_init_def
        RateLimiter_init_def MAX_RETRIES_def RETRY_BACKOFF_FACTOR_def io_init_def acquire_def)
qed

section \<open>Properties of the session manager\<close>

lemma start_session_step:
  assumes "start_session cl db q sm = (Inr step, sm')"
  shows "steps sm' = steps sm @ [step] \<and> step_number step = step_counter sm + 1 \<and>
         step_counter sm' = step_counter sm + 1 \<and> operation step = ''search'' \<and>
         database step = db"
  using assms
  by (auto simp add: start_session_def Let_def split: sum.splits if_splits)

lemma add_search_step_step:
  assumes "add_search_step cl db q cw oper sm = (Inr step, sm')"
  shows "steps sm' = steps sm @ [step] \<and> step_number step = step_counter sm + 1 \<and>
         step_counter sm' = step_counter sm + 1 \<and> operation step = ''search'' \<and>
         database step = db"
proof (cases "truthy (web_env sm)")
  case True
  then show ?thesis
    using assms by (auto simp add: add_search_step_def Let_def split: sum.splits if_splits)
next
  case False
  then have "start_session cl db q sm = (Inr step, sm')"
    using assms by (simp add: add_search_step_def)
  then show ?thesis by (rule start_session_step)
qed

lemma add_link_step_step:
  assumes "add_link_step cl from_db to_db lname fs sm = (Inr step, sm')"
  shows "steps sm' = steps sm @ [step] \<and> step_number step = step_counter sm + 1 \<and>
         step_counter sm' = step_counter sm + 1 \<and> operation step = ''link'' \<and>
         database step = to_db"
  using assms
  by (auto simp add: add_link_step_def Let_def split: sum.splits if_splits option.splits)

lemma exec_op_step:
  assumes "exec_op cl x sm = (Inr step, sm')"
  shows "steps sm' = steps sm @ [step] \<and> step_number step = step_counter sm + 1 \<and>
         step_counter sm' = step_counter sm + 1 \<and> operation step = op_kind x \<and>
         database step = op_db x"
proof (cases x)
  case (StartSession db q)
  then show ?thesis using assms start_session_step [of cl db q sm step sm'] by simp
next
  case (AddSearchStep db q cw oper)
  then show ?thesis using assms add_search_step_step [of cl db q cw oper sm step sm'] by simp
next
  case (AddLinkStep from_db to_db lname fs)
  then show ?thesis using assms add_link_step_step [of cl from_db to_db lname fs sm step sm'] by simp
qed

lemma exec_op_failure_keeps_steps:
  assumes "exec_op cl x sm = (Inl e, sm')"
  shows "steps sm' = steps sm \<and> step_counter sm' = step_counter sm"
  using assms
  by (cases x)
     (auto simp add: start_session_def add_search_step_def add_link_step_def Let_def
           split: sum.splits if_splits option.splits)

lemma run_ops_steps:
  assumes "run_ops cl xs sm = Inr sm'"
  shows "\<exists>new. steps sm' = steps sm @ new \<and>
           map step_number new = map (\<lambda>i. step_counter sm + 1 + int i) [0..<length xs] \<and>
           map operation new = map op_kind xs \<and> map database new = map op_db xs \<and>
           step_counter sm' = step_counter sm + int (length xs)"
  using assms
proof (induction xs arbitrary: sm)
  case Nil
  then show ?case by simp
next
  case (Cons x xs)
  obtain res sm1 where e: "exec_op cl x sm = (res, sm1)" by (cases "exec_op cl x sm")
  then obtain step where r: "res = Inr step"
    using Cons.prems by (cases res) auto
  have rest: "run_ops cl xs sm1 = Inr sm'"
    using Cons.prems e r by simp
  have st: "steps sm1 = steps sm @ [step] \<and> step_number step = step_counter sm + 1 \<and>
         step_counter sm1 = step_counter sm + 1 \<and> operation step = op_kind x \<and>
         database step = op_db x"
    using exec_op_step e r by blast
  obtain new where n: "steps sm' = steps sm1 @ new"
      "map step_number new = map (\<lambda>i. step_counter sm1 + 1 + int i) [0..<length xs]"
      "map operation new = map op_kind xs" "map database new = map op_db xs"
      "step_counter sm' = step_counter sm1 + int (length xs)"
    using Cons.IH [OF rest] by blast
  have idx: "[0..<length (x # xs)] = 0 # map Suc [0..<length xs]"
    by (simp add: upt_conv_Cons map_Suc_upt del: upt_Suc)
  have "steps sm' = steps sm @ (step # new) \<and>
        map step_number (step # new) =
          map (\<lambda>i. step_counter sm + 1 + int i) [0..<length (x # xs)] \<and>
        map operation (step # new) = map op_kind (x # xs) \<and>
        map database (step # new) = map op_db (x # xs) \<and>
        step_counter sm' = step_counter sm + int (length (x # xs))"
    unfolding idx using n st by (simp add: comp_def algebra_simps)
  then show ?case by blast
qed

text \<open>
  Claim C7. A manager that has run a sequence of calls of \<open>start_session\<close>,
  \<open>add_search_step\<close> and \<open>add_link_step\<close>, none of which raised, holds one step per
  call, in the order of the calls (the operation and the database of each step are those
  of its call), numbered 1, 2, 3, ... without gaps, and its step counter is the number
  of calls.
\<close>

theorem steps_numbered_in_call_order:
  assumes "run_ops cl ops SessionManager_init = Inr sm"
  shows "map step_number (steps sm) = map int [1..<Suc (length ops)] \<and>
         map operation (steps sm) = map op_kind ops \<and>
         map database (steps sm) = map op_db ops \<and>
         step_counter sm = int (length ops)"
proof -
  obtain new where n: "steps sm = steps SessionManager_init @ new"
      "map step_number new = map (\<lambda>i. step_counter SessionManager_init + 1 + int i) [0..<length ops]"
      "map operation new = map op_kind ops" "map database new = map op_db ops"
      "step_counter sm = step_counter SessionManager_init + int (length ops)"
    using run_ops_steps [OF assms] by blast
  have "map (\<lambda>i. 1 + int i) [0..<length ops] = map int [1..<Suc (length ops)]"
    by (simp add: map_Suc_upt [symmetric] del: upt_Suc)
  then show ?thesis
    using n by (simp add: SessionManager_init_def)
qed


lemma example_pipeline_runs:
  "\<exists>sm. run_ops
     (scripted_client
        [[(''web_env'', PStr ''ENV1''), (''query_key'', PStr ''1''), (''count'', PInt 500)],
         [(''web_env'', PStr ''ENV1''), (''query_key'', PStr ''2''), (''count'', PInt 40)],
         [(''web_env'', PStr ''ENV1''), (''query_key'', PStr ''3''), (''count'', PInt 7)]]
        (Some [Some [''11'', ''12'']]))
     [StartSession ''pubmed'' ''cancer'',
      AddSearchStep ''pubmed'' ''therapy'' (Some ''1'') ''AND'',
      AddSearchStep ''pubmed'' ''review'' None ''AND'',
      AddLinkStep ''pubmed'' ''pmc'' None None]
     SessionManager_init = Inr sm"
  by (simp add: scripted_client_def SessionManager_init_def start_session_def add_search_step_def
      add_link_step_def dict_get_def of_opt_str_def of_opt_int_def or_default_def Let_def
      raise_new_def new_exn_def bind_args_def)

theorem steps_numbered_in_call_order_witness:
  "(case run_ops
     (scripted_client
        [[(''web_env'', PStr ''ENV1''), (''query_key'', PStr ''1''), (''count'', PInt 500)],
         [(''web_env'', PStr ''ENV1''), (''query_key'', PStr ''2''), (''count'', PInt 40)],
         [(''web_env'', PStr ''ENV1''), (''query_key'', PStr ''3''), (''count'', PInt 7)]]
        (Some [Some [''11'', ''12'']]))
     [StartSession ''pubmed'' ''cancer'',
      AddSearchStep ''pubmed'' ''therapy'' (Some ''1'') ''AND'',
      AddSearchStep ''pubmed'' ''review'' None ''AND'',
      AddLinkStep ''pubmed'' ''pmc'' None None]
     SessionManager_init of
      Inl e \<Rightarrow> False
    | Inr sm \<Rightarrow> map step_number (steps sm) = [1, 2, 3, 4] \<and>
               map operation (steps sm) = [''search'', ''search'', ''search'', ''link''])"
proof -
  obtain sm where r: "run_ops
     (scripted_client
        [[(''web_env'', PStr ''ENV1''), (''query_key'', PStr ''1''), (''count'', PInt 500)],
         [(''web_env'', PStr ''ENV1''), (''query_key'', PStr ''2''), (''count'', PInt 40)],
         [(''web_env'', PStr ''ENV1''), (''query_key'', PStr ''3''), (''count'', PInt 7)]]
        (Some [Some [''11'', ''12'']]))
     [StartSession ''pubmed'' ''cancer'',
      AddSearchStep ''pubmed'' ''therapy'' (Some ''1'') ''AND'',
      AddSearchStep ''pubmed'' ''review'' None ''AND'',
      AddLinkStep ''pubmed'' ''pmc'' None None]
     SessionManager_init = Inr sm"
    using example_pipeline_runs by blast
  have "[1..<Suc 4] = [1, 2, 3, 4]" by (simp add: upt_rec)
  then show ?thesis
    using steps_numbered_in_call_order [OF r] r by simp
qed



lemma start_session_reaches_active_session:
  "start_session
     (scripted_client [[(''web_env'', PStr ''ENV1''), (''query_key'', PStr ''1''),
                        (''count'', PInt 500)]] None)
     ''pubmed'' ''cancer'' SessionManager_init =
   (Inr \<lparr>step_number = 1, operation = ''search'', database = ''pubmed'',
          query_key = PStr ''1'', result_count = PInt 500,
          parameters = [(''query'', PStr ''cancer'')]\<rparr>,
    active_session)"
  by (simp add: start_session_def scripted_client_def SessionManager_init_def active_session_def
      dict_get_def Let_def)

lemma add_link_step_idle_raises:
  assumes "\<not> truthy (web_env sm)"
  shows "add_link_step cl from_db to_db link_name from_step sm =
           (Inl \<lparr>cls = PubMedError,
                 attrs = [(''message'', PStr ''Cannot add link step: no active session''),
                          (''details'', PNone)]\<rparr>,
            sm)"
  using assms by (simp add: add_link_step_def raise_PubMedError_message)

lemma add_link_step_missing_step_raises:
  assumes "truthy (web_env sm)" and "n \<noteq> 0"
    and "find (\<lambda>s. Some (step_number s) = Some n) (steps sm) = None"
  shows "add_link_step cl from_db to_db link_name (Some n) sm =
           (Inl \<lparr>cls = PubMedError,
                 attrs = [(''message'', PStr (''Step '' @ str_int n @ '' not found in pipeline'')),
                          (''details'', PNone)]\<rparr>,
            sm)"
  using assms
  by (simp add: add_link_step_def raise_PubMedError_message of_opt_int_def or_default_def)

text \<open>
  Claim C8, at the step number 0. On an idle manager \<open>add_link_step\<close> raises without a
  call to the client and without a change of state, and a step number other than 0 that
  no step carries raises too (the two lemmas above). But \<open>from_step = 0\<close>, which no step
  carries either, is read as "not given": on the active session the call does not raise,
  it links from the last step and appends step 2.
\<close>

theorem add_link_step_from_step_zero_links_last:
  "add_link_step (scripted_client [] (Some [Some [''11'', ''12'']]))
     ''pubmed'' ''pmc'' None (Some 0) active_session =
   (Inr \<lparr>step_number = 2, operation = ''link'', database = ''pmc'',
          query_key = PStr ''2'', result_count = PInt 2,
          parameters = [(''from_db'', PStr ''pubmed''), (''link_name'', PNone),
                        (''from_step'', PInt 0)]\<rparr>,
    active_session
      \<lparr>steps := steps active_session @
         [\<lparr>step_number = 2, operation = ''link'', database = ''pmc'',
           query_key = PStr ''2'', result_count = PInt 2,
           parameters = [(''from_db'', PStr ''pubmed''), (''link_name'', PNone),
                         (''from_step'', PInt 0)]\<rparr>],
       step_counter := 2,
       client_log := client_log active_session @
         [LinkCall ''pubmed'' ''pmc'' ''neighbor_history'' (PStr ''1'') (PStr ''ENV1'') None]\<rparr>)"
  by (simp add: add_link_step_def scripted_client_def active_session_def of_opt_int_def
      of_opt_str_def or_default_def Let_def str_int_def str_nat.simps)

text \<open>
  Claim C9. A search result with a session handle and no query key: \<open>start_session\<close>
  raises its session-start error, yet the manager now holds the handle, with no step and
  the counter at 0; \<open>add_link_step\<close> on that manager passes the no-active-session guard
  and raises "No previous steps in pipeline", leaving the manager as it is.
\<close>

theorem failed_start_session_keeps_web_env:
  "start_session (scripted_client [[(''web_env'', PStr ''ENV1''), (''count'', PInt 500)]] None)
     ''pubmed'' ''cancer'' SessionManager_init =
   (Inl \<lparr>cls = PubMedError,
         attrs = [(''message'', PStr ''Failed to start session: no History data returned''),
                  (''details'', PNone)]\<rparr>,
    \<lparr>web_env = PStr ''ENV1'', steps = [], step_counter = 0,
     client_log = [SearchCall ''pubmed'' ''cancer'' True]\<rparr>) \<and>
   add_link_step (scripted_client [[(''web_env'', PStr ''ENV1''), (''count'', PInt 500)]] None)
     ''pubmed'' ''pmc'' None None
     \<lparr>web_env = PStr ''ENV1'', steps = [], step_counter = 0,
      client_log = [SearchCall ''pubmed'' ''cancer'' True]\<rparr> =
   (Inl \<lparr>cls = PubMedError,
         attrs = [(''message'', PStr ''No previous steps in pipeline''), (''details'', PNone)]\<rparr>,
    \<lparr>web_env = PStr ''ENV1'', steps = [], step_counter = 0,
     client_log = [SearchCall ''pubmed'' ''cancer'' True]\<rparr>)"
  by (simp add: start_session_def add_link_step_def scripted_client_def SessionManager_init_def
      dict_get_def of_opt_int_def Let_def raise_PubMedError_message)

text \<open>
  Claim C10. On an active session, whatever dictionary the search returns,
  \<open>add_search_step\<close> appends a step: its number is the counter plus 1, its query key is
  whatever the dictionary has under \<open>query_key\<close> (\<open>None\<close> when it has nothing), and the
  step is the last entry of the pipeline summary afterwards.
\<close>

theorem add_search_step_appends_unvalidated:
  assumes "truthy (web_env sm)"
    and "\<And>fq. search cl (length (client_log sm)) db fq True = Inr result"
  shows "\<exists>step sm'.
           add_search_step cl db q combine_with combine_operator sm = (Inr step, sm') \<and>
           steps sm' = steps sm @ [step] \<and>
           step_number step = step_counter sm + 1 \<and>
           step_counter sm' = step_counter sm + 1 \<and>
           query_key step = dict_get result ''query_key'' PNone \<and>
           total_steps (get_pipeline_summary sm') = total_steps (get_pipeline_summary sm) + 1 \<and>
           summary_steps (get_pipeline_summary sm') =
             summary_steps (get_pipeline_summary sm) @
               [\<lparr>entry_step = step_counter sm + 1, entry_operation = ''search'',
                 entry_database = db, entry_query_key = dict_get result ''query_key'' PNone,
                 entry_result_count = dict_get result ''count'' (PInt 0),
                 entry_parameters = [(''query'', PStr q),
                                     (''combined_with'', of_opt_str combine_with),
                                     (''operator'', PStr combine_operator)]\<rparr>]"
  using assms
  by (simp add: add_search_step_def Let_def get_pipeline_summary_def)

theorem add_search_step_appends_unvalidated_witness:
  "\<exists>step sm'.
     add_search_step (scripted_client [[], [(''count'', PInt 7)]] None)
       ''pubmed'' ''therapy'' None ''AND'' active_session = (Inr step, sm') \<and>
     steps sm' = steps active_session @ [step] \<and>
     step_number step = 2 \<and> query_key step = PNone \<and>
     total_steps (get_pipeline_summary sm') = 2"
proof -
  have a: "truthy (web_env active_session)"
    by (simp add: active_session_def)
  have h: "search (scripted_client [[], [(''count'', PInt 7)]] None)
             (length (client_log active_session)) ''pubmed'' fq True = Inr [(''count'', PInt 7)]"
    for fq
    by (simp add: scripted_client_def active_session_def)
  obtain step sm' where r:
    "add_search_step (scripted_client [[], [(''count'', PInt 7)]] None)
       ''pubmed'' ''therapy'' None ''AND'' active_session = (Inr step, sm')"
    "steps sm' = steps active_session @ [step]"
    "step_number step = step_counter active_session + 1"
    "query_key step = dict_get [(''count'', PInt 7)] ''query_key'' PNone"
    "total_steps (get_pipeline_summary sm') =
       total_steps (get_pipeline_summary active_session) + 1"
    using add_search_step_appends_unvalidated [OF a h, of "''therapy''" None "''AND''"]
    by blast
  have "step_number step = 2" "query_key step = PNone"
       "total_steps (get_pipeline_summary sm') = 2"
    using r(3,4,5) by (simp_all add: active_session_def dict_get_def get_pipeline_summary_def)
  then show ?thesis using r(1,2) by blast
qed


end
